theory Spec2Isabelle
  imports Complex_Main
begin

section \<open>The screening and treatment cascade of \<^verbatim>\<open>run_sim.py\<close>\<close>

text \<open>
  The development embeds \<^verbatim>\<open>make_st\<close> (lines 22 to 86 of \<^verbatim>\<open>src/run_sim.py\<close>) and the
  five eligibility lambdas it builds. Conventions of the embedding:
  \<^item> a Python \<^verbatim>\<open>float\<close> is a \<open>real\<close>: rounding, overflow and infinities are not
    represented. The one special value the source tests for, NaN in
    \<^verbatim>\<open>sim.people.date_screened\<close>, is \<open>None\<close> of an option type;
  \<^item> an exception is the \<open>Inl\<close> of a sum, so every function returns \<open>error + 'a\<close>;
  \<^item> the constructors of the simulation library (\<^verbatim>\<open>hpv.routine_screening\<close>,
    \<^verbatim>\<open>hpv.routine_triage\<close>, \<^verbatim>\<open>hpv.treat_num\<close>) are not part of the repository: a call is
    recorded as a descriptor holding the keyword arguments it was given;
  \<^item> the simulation object is represented by what the lambdas read from it.
\<close>

subsection \<open>Python values and operators\<close>

datatype error = ZeroDivisionError | IndexError | KeyError | EngineError

text \<open>Sequencing of computations that may raise.\<close>

definition ebind :: "error + 'a \<Rightarrow> ('a \<Rightarrow> error + 'b) \<Rightarrow> error + 'b" where
  "ebind m f = (case m of Inl e \<Rightarrow> Inl e | Inr v \<Rightarrow> f v)"

text \<open>
  A number produced by \<^verbatim>\<open>**\<close> on floats is a float or, for a negative base with a
  fractional exponent, a complex number.
\<close>

datatype pynum = PyFloat real | PyComplex complex

text \<open>\<^verbatim>\<open>a / b\<close> on numbers: true division, raising on a zero divisor.\<close>

definition py_truediv :: "real \<Rightarrow> real \<Rightarrow> error + real" where
  "py_truediv a b = (if b = 0 then Inl ZeroDivisionError else Inr (a / b))"

text \<open>\<^verbatim>\<open>xs[i]\<close> for a non-negative index.\<close>

definition py_getitem :: "'a list \<Rightarrow> nat \<Rightarrow> error + 'a" where
  "py_getitem xs i = (if i < length xs then Inr (xs ! i) else Inl IndexError)"

text \<open>
  \<^verbatim>\<open>x ** y\<close> on floats: \<^verbatim>\<open>x ** 0\<close> is 1 also for \<^verbatim>\<open>x = 0\<close>; zero to a negative power
  raises; a negative base gives a float for an integral exponent and otherwise the
  principal complex power, of modulus \<open>\<bar>x\<bar> ** y\<close> and argument \<open>y * pi\<close>.
\<close>

definition py_pow :: "real \<Rightarrow> real \<Rightarrow> error + pynum" where
  "py_pow x y =
     (if y = 0 then Inr (PyFloat 1)
      else if x = 0 then (if y < 0 then Inl ZeroDivisionError else Inr (PyFloat 0))
      else if x < 0 then
        (if of_int \<lfloor>y\<rfloor> = y
         then Inr (PyFloat ((if even \<lfloor>y\<rfloor> then 1 else - 1) * ((- x) powr y)))
         else Inr (PyComplex (Complex (((- x) powr y) * cos (y * pi))
                                       (((- x) powr y) * sin (y * pi)))))
      else Inr (PyFloat (x powr y)))"

text \<open>\<^verbatim>\<open>a - v\<close> for a float \<^verbatim>\<open>a\<close>.\<close>

definition py_rsub :: "real \<Rightarrow> pynum \<Rightarrow> pynum" where
  "py_rsub a v = (case v of PyFloat r \<Rightarrow> PyFloat (a - r)
                          | PyComplex z \<Rightarrow> PyComplex (complex_of_real a - z))"

text \<open>
  Element-wise operations of numpy on one entry of a float array, \<open>None\<close> being NaN:
  NaN plus a number is NaN, and every comparison with NaN is false.
\<close>

type_synonym npfloat = "real option"

definition np_isnan :: "npfloat \<Rightarrow> bool" where
  "np_isnan d = (d = None)"

definition np_add :: "npfloat \<Rightarrow> real \<Rightarrow> npfloat" where
  "np_add d c = (case d of None \<Rightarrow> None | Some v \<Rightarrow> Some (v + c))"

definition np_lt :: "npfloat \<Rightarrow> real \<Rightarrow> bool" where
  "np_lt d a = (case d of None \<Rightarrow> False | Some v \<Rightarrow> v < a)"

text \<open>
  \<^verbatim>\<open>list(set(xs))\<close>: every element of \<open>xs\<close> once. Python enumerates a set in the order
  of its hash table; the embedding keeps the order of first occurrence, and no
  statement below depends on the order.
\<close>

definition py_list_of_set :: "int list \<Rightarrow> int list" where
  "py_list_of_set xs = remdups xs"

subsection \<open>The simulation state read by the eligibility lambdas\<close>

text \<open>
  \<^verbatim>\<open>sim.people.date_screened\<close> is a float array with one entry per person;
  \<^verbatim>\<open>sim.t\<close> is the index of the current time step; \<^verbatim>\<open>sim['dt']\<close> is the step size in
  years; \<^verbatim>\<open>sim.get_intervention(label)\<close> returns the intervention of that label or
  raises, and the \<^verbatim>\<open>outcomes\<close> of an intervention is a dict from bucket names to arrays
  of person indices.
\<close>

record people =
  date_screened :: "npfloat list"

record intervention =
  outcomes :: "string \<rightharpoonup> int list"

record sim =
  people :: people
  t :: int
  dt :: real
  get_intervention :: "string \<Rightarrow> error + intervention"

text \<open>\<^verbatim>\<open>d[key]\<close> on a dict.\<close>

definition dict_getitem :: "(string \<rightharpoonup> 'v) \<Rightarrow> string \<Rightarrow> error + 'v" where
  "dict_getitem d k = (case d k of None \<Rightarrow> Inl KeyError | Some v \<Rightarrow> Inr v)"

text \<open>\<^verbatim>\<open>sim.get_intervention(label).outcomes[bucket]\<close>.\<close>

definition outcome_bucket :: "sim \<Rightarrow> string \<Rightarrow> string \<Rightarrow> error + int list" where
  "outcome_bucket s lbl bucket =
     ebind (get_intervention s lbl) (\<lambda>i. dict_getitem (outcomes i) bucket)"

text \<open>What an eligibility lambda returns: a boolean mask or a collection of indices.\<close>

datatype eligible = Mask "bool list" | Inds "int list"

subsection \<open>Intervention step descriptors\<close>

datatype step_kind = RoutineScreening | RoutineTriage | TreatNum

datatype product = ProductName string | RadiationProduct

text \<open>A keyword argument that a call does not pass is \<open>None\<close>.\<close>

record step =
  kind :: step_kind
  prob :: pynum
  annual_prob :: "bool option"
  product_kw :: product
  eligibility :: "sim \<Rightarrow> error + eligible"
  start_year :: "int option"
  age_range_kw :: "int list option"
  label :: string

subsection \<open>\<^verbatim>\<open>make_st\<close>\<close>

text \<open>Lines 26 and 27: the age window and half its width.\<close>

definition age_range :: "int list" where
  "age_range = [30, 50]"

definition len_age_range :: "error + real" where
  "len_age_range =
     ebind (py_getitem age_range 1) (\<lambda>hi.
     ebind (py_getitem age_range 0) (\<lambda>lo.
       py_truediv (real_of_int (hi - lo)) 2))"

text \<open>Line 29: \<^verbatim>\<open>1 - (1 - screen_coverage)**(1/len_age_range)\<close>.\<close>

definition model_annual_screen_prob :: "real \<Rightarrow> error + pynum" where
  "model_annual_screen_prob screen_coverage =
     ebind len_age_range (\<lambda>k.
     ebind (py_truediv 1 k) (\<lambda>e.
     ebind (py_pow (1 - screen_coverage) e) (\<lambda>pw.
       Inr (py_rsub 1 pw))))"

text \<open>
  Lines 32 and 33: \<^verbatim>\<open>np.isnan(date_screened) | (sim.t > (date_screened + 5 / sim['dt']))\<close>.
\<close>

definition screen_eligible :: "sim \<Rightarrow> error + eligible" where
  "screen_eligible s =
     ebind (py_truediv 5 (dt s)) (\<lambda>c.
       Inr (Mask (map (\<lambda>d. np_isnan d \<or> np_lt (np_add d c) (real_of_int (t s)))
                      (date_screened (people s)))))"

text \<open>Line 46.\<close>

definition screen_positive :: "sim \<Rightarrow> error + eligible" where
  "screen_positive s = map_sum id Inds (outcome_bucket s ''screening'' ''positive'')"

text \<open>Line 56.\<close>

definition ablation_eligible :: "sim \<Rightarrow> error + eligible" where
  "ablation_eligible s = map_sum id Inds (outcome_bucket s ''tx assigner'' ''ablation'')"

text \<open>Lines 65 and 66.\<close>

definition excision_eligible :: "sim \<Rightarrow> error + eligible" where
  "excision_eligible s =
     ebind (outcome_bucket s ''tx assigner'' ''excision'') (\<lambda>xs.
     ebind (outcome_bucket s ''ablation'' ''unsuccessful'') (\<lambda>ys.
       Inr (Inds (py_list_of_set (xs @ ys)))))"

text \<open>Line 75.\<close>

definition radiation_eligible :: "sim \<Rightarrow> error + eligible" where
  "radiation_eligible s = map_sum id Inds (outcome_bucket s ''tx assigner'' ''radiation'')"

text \<open>The five constructor calls, and the list that is returned (line 84).\<close>

definition make_st :: "product \<Rightarrow> real \<Rightarrow> real \<Rightarrow> int \<Rightarrow> error + step list" where
  "make_st product0 screen_coverage treat_coverage start_year0 =
     ebind (model_annual_screen_prob screen_coverage) (\<lambda>p.
     let screening = \<lparr> kind = RoutineScreening, prob = p, annual_prob = None,
                        product_kw = product0, eligibility = screen_eligible,
                        start_year = Some start_year0, age_range_kw = Some age_range,
                        label = ''screening'' \<rparr>;
         assign_treatment = \<lparr> kind = RoutineTriage, prob = PyFloat 1, annual_prob = Some False,
                        product_kw = ProductName ''tx_assigner'', eligibility = screen_positive,
                        start_year = Some start_year0, age_range_kw = None,
                        label = ''tx assigner'' \<rparr>;
         ablation = \<lparr> kind = TreatNum, prob = PyFloat treat_coverage, annual_prob = Some False,
                        product_kw = ProductName ''ablation'', eligibility = ablation_eligible,
                        start_year = None, age_range_kw = None,
                        label = ''ablation'' \<rparr>;
         excision = \<lparr> kind = TreatNum, prob = PyFloat treat_coverage, annual_prob = Some False,
                        product_kw = ProductName ''excision'', eligibility = excision_eligible,
                        start_year = None, age_range_kw = None,
                        label = ''excision'' \<rparr>
     in ebind (py_truediv treat_coverage 4) (\<lambda>q.
        let radiation = \<lparr> kind = TreatNum, prob = PyFloat q, annual_prob = Some False,
                        product_kw = RadiationProduct, eligibility = radiation_eligible,
                        start_year = None, age_range_kw = None,
                        label = ''radiation'' \<rparr>
        in Inr [screening, assign_treatment, ablation, excision, radiation]))"

text \<open>The defaults of the signature on line 22.\<close>

definition make_st_default :: "error + step list" where
  "make_st_default = make_st (ProductName ''hpv'') (15 / 100) (7 / 10) 2020"

section \<open>Basic facts about the embedding\<close>

lemma len_age_range_eq: "len_age_range = Inr 10"
  by (simp add: len_age_range_def age_range_def py_getitem_def py_truediv_def ebind_def)

text \<open>The value of line 29 for a coverage of at most 1, where the base is not negative.\<close>

lemma screen_prob_unit:
  assumes "sc \<le> 1"
  shows "model_annual_screen_prob sc = Inr (PyFloat (1 - (1 - sc) powr (1 / 10)))"
  using assms
  by (simp add: model_annual_screen_prob_def len_age_range_eq ebind_def py_truediv_def
      py_pow_def py_rsub_def)

text \<open>Above 1 the base is negative and the exponent fractional: the value is complex.\<close>

lemma screen_prob_above:
  assumes "1 < sc"
  shows "model_annual_screen_prob sc =
     Inr (PyComplex (1 - Complex (((sc - 1) powr (1 / 10)) * cos (pi / 10))
                                 (((sc - 1) powr (1 / 10)) * sin (pi / 10))))"
  using assms
  by (simp add: model_annual_screen_prob_def len_age_range_eq ebind_def py_truediv_def
      py_pow_def py_rsub_def)

lemma screen_prob_total: "\<exists>p. model_annual_screen_prob sc = Inr p"
proof (cases "sc \<le> 1")
  case True
  then show ?thesis using screen_prob_unit by blast
next
  case False
  then have "1 < sc" by simp
  then show ?thesis using screen_prob_above by blast
qed

text \<open>Once line 29 has a value, the five constructor calls cannot fail.\<close>

lemma make_st_steps:
  assumes "model_annual_screen_prob sc = Inr p"
  shows "make_st pr sc tc y = Inr
     [\<lparr> kind = RoutineScreening, prob = p, annual_prob = None,
        product_kw = pr, eligibility = screen_eligible,
        start_year = Some y, age_range_kw = Some [30, 50], label = ''screening'' \<rparr>,
      \<lparr> kind = RoutineTriage, prob = PyFloat 1, annual_prob = Some False,
        product_kw = ProductName ''tx_assigner'', eligibility = screen_positive,
        start_year = Some y, age_range_kw = None, label = ''tx assigner'' \<rparr>,
      \<lparr> kind = TreatNum, prob = PyFloat tc, annual_prob = Some False,
        product_kw = ProductName ''ablation'', eligibility = ablation_eligible,
        start_year = None, age_range_kw = None, label = ''ablation'' \<rparr>,
      \<lparr> kind = TreatNum, prob = PyFloat tc, annual_prob = Some False,
        product_kw = ProductName ''excision'', eligibility = excision_eligible,
        start_year = None, age_range_kw = None, label = ''excision'' \<rparr>,
      \<lparr> kind = TreatNum, prob = PyFloat (tc / 4), annual_prob = Some False,
        product_kw = RadiationProduct, eligibility = radiation_eligible,
        start_year = None, age_range_kw = None, label = ''radiation'' \<rparr>]"
  using assms
  by (simp add: make_st_def ebind_def py_truediv_def age_range_def Let_def)

text \<open>Raising the tenth root to the tenth power gives the number back.\<close>

lemma root_power_inverse:
  fixes x :: real
  assumes "0 \<le> x"
  shows "(x powr (1 / 10)) ^ 10 = x"
proof -
  have "(x powr (1 / 10)) ^ 10 = (x powr (1 / 10)) powr 10"
    by simp
  also have "\<dots> = x powr 1"
    by (simp only: powr_powr) simp
  also have "\<dots> = x"
    using assms by simp
  finally show ?thesis .
qed

text \<open>Reading a bucket that is there, and reading it from two states that agree on the step.\<close>

lemma outcome_bucket_found:
  assumes "get_intervention s lbl = Inr i" and "outcomes i bucket = Some xs"
  shows "outcome_bucket s lbl bucket = Inr xs"
  using assms by (simp add: outcome_bucket_def ebind_def dict_getitem_def)

lemma outcome_bucket_cong:
  assumes "get_intervention s lbl = get_intervention s' lbl"
  shows "outcome_bucket s lbl bucket = outcome_bucket s' lbl bucket"
  using assms by (simp add: outcome_bucket_def)

section \<open>The claims\<close>

subsection \<open>The coverage formula\<close>

text \<open>
  C1. For every \<^verbatim>\<open>screen_coverage\<close> in \<open>[0, 1]\<close>, \<^verbatim>\<open>make_st\<close> returns its steps, the
  \<^verbatim>\<open>prob\<close> of the step labelled \<^verbatim>\<open>screening\<close> is the float
  \<open>p = 1 - (1 - screen_coverage) ** (1 / k)\<close> with \<open>k = 10\<close>, half the width of the age
  window \<open>[30, 50]\<close>, and this \<open>p\<close> solves \<open>1 - (1 - p) ^ k = screen_coverage\<close>.
\<close>

theorem screen_prob_formula:
  assumes "0 \<le> sc" and "sc \<le> 1"
  shows "\<exists>steps p. make_st pr sc tc y = Inr steps
           \<and> label (steps ! 0) = ''screening''
           \<and> prob (steps ! 0) = PyFloat p
           \<and> len_age_range = Inr 10
           \<and> p = 1 - (1 - sc) powr (1 / 10)
           \<and> 1 - (1 - p) ^ 10 = sc"
proof -
  let ?p = "1 - (1 - sc) powr (1 / 10)"
  have "model_annual_screen_prob sc = Inr (PyFloat ?p)"
    using assms(2) by (rule screen_prob_unit)
  note st = make_st_steps [OF this, of pr tc y]
  have inv: "1 - (1 - ?p) ^ 10 = sc"
    using root_power_inverse [of "1 - sc"] assms(2) by simp
  show ?thesis
    using st inv len_age_range_eq by simp
qed

theorem screen_prob_formula_witness:
  "(0::real) \<le> 15 / 100 \<and> (15::real) / 100 \<le> 1 \<and>
   (\<exists>steps p. make_st_default = Inr steps
      \<and> prob (steps ! 0) = PyFloat p
      \<and> p = 1 - (85 / 100) powr (1 / 10)
      \<and> 1 - (1 - p) ^ 10 = 15 / 100)"
proof -
  have lo: "(0::real) \<le> 15 / 100" and hi: "(15::real) / 100 \<le> 1"
    by simp_all
  from screen_prob_formula [OF lo hi, of "ProductName ''hpv''" "7 / 10" 2020]
  show ?thesis
    unfolding make_st_default_def by auto
qed



text \<open>
  C10. The age window is no argument of \<^verbatim>\<open>make_st\<close>: it is the constant \<open>[30, 50]\<close>, so
  the divisor \<open>k\<close> of the exponent is 10 for every call, no call raises
  \<^verbatim>\<open>ZeroDivisionError\<close>, and the screening step is given that window.
\<close>

theorem age_window_fixed:
  "age_range = [30, 50]
   \<and> len_age_range = Inr 10
   \<and> make_st pr sc tc y \<noteq> Inl ZeroDivisionError
   \<and> (\<exists>steps. make_st pr sc tc y = Inr steps \<and> age_range_kw (steps ! 0) = Some [30, 50])"
proof -
  obtain p where "model_annual_screen_prob sc = Inr p"
    using screen_prob_total by blast
  from make_st_steps [OF this, of pr tc y] show ?thesis
    by (simp add: age_range_def len_age_range_eq)
qed

subsection \<open>No validation of the coverage values\<close>




subsection \<open>The steps and their probabilities\<close>

text \<open>
  C5. For every \<^verbatim>\<open>treat_coverage\<close>, the radiation step has probability
  \<^verbatim>\<open>treat_coverage / 4\<close>, and the ablation and excision steps have probability
  \<^verbatim>\<open>treat_coverage\<close>.
\<close>

theorem treatment_probs:
  "\<exists>steps. make_st pr sc tc y = Inr steps
     \<and> label (steps ! 2) = ''ablation'' \<and> prob (steps ! 2) = PyFloat tc
     \<and> label (steps ! 3) = ''excision'' \<and> prob (steps ! 3) = PyFloat tc
     \<and> label (steps ! 4) = ''radiation'' \<and> prob (steps ! 4) = PyFloat (tc / 4)"
proof -
  obtain p where "model_annual_screen_prob sc = Inr p"
    using screen_prob_total by blast
  from make_st_steps [OF this, of pr tc y] show ?thesis
    by simp
qed

text \<open>
  C6. Every call of \<^verbatim>\<open>make_st\<close> returns exactly five step descriptors, in the order
  screening, treatment assigner, ablation, excision, radiation.
\<close>

theorem five_steps_in_order:
  "\<exists>steps. make_st pr sc tc y = Inr steps
     \<and> length steps = 5
     \<and> map label steps = [''screening'', ''tx assigner'', ''ablation'', ''excision'', ''radiation'']
     \<and> map kind steps = [RoutineScreening, RoutineTriage, TreatNum, TreatNum, TreatNum]"
proof -
  obtain p where "model_annual_screen_prob sc = Inr p"
    using screen_prob_total by blast
  from make_st_steps [OF this, of pr tc y] show ?thesis
    by simp
qed

subsection \<open>The eligibility lambdas\<close>

text \<open>
  C4. In every state with a non-zero step size, the screening step's eligibility is a
  mask with one entry per person, and a person's entry is true exactly if
  \<^verbatim>\<open>date_screened\<close> is NaN or \<^verbatim>\<open>sim.t > date_screened + 5 / dt\<close>.
\<close>

theorem screen_eligible_iff:
  assumes "dt s \<noteq> 0"
  shows "\<exists>steps mask. make_st pr sc tc y = Inr steps
           \<and> label (steps ! 0) = ''screening''
           \<and> eligibility (steps ! 0) s = Inr (Mask mask)
           \<and> length mask = length (date_screened (people s))
           \<and> (\<forall>i < length mask. mask ! i \<longleftrightarrow>
                 (date_screened (people s) ! i = None
                  \<or> (\<exists>d. date_screened (people s) ! i = Some d
                         \<and> real_of_int (t s) > d + 5 / dt s)))"
proof -
  obtain p where "model_annual_screen_prob sc = Inr p"
    using screen_prob_total by blast
  note st = make_st_steps [OF this, of pr tc y]
  let ?mask = "map (\<lambda>d. np_isnan d \<or> np_lt (np_add d (5 / dt s)) (real_of_int (t s)))
                   (date_screened (people s))"
  have el: "screen_eligible s = Inr (Mask ?mask)"
    using assms by (simp add: screen_eligible_def ebind_def py_truediv_def)
  have "\<forall>i < length ?mask. ?mask ! i \<longleftrightarrow>
          (date_screened (people s) ! i = None
           \<or> (\<exists>d. date_screened (people s) ! i = Some d \<and> real_of_int (t s) > d + 5 / dt s))"
    by (auto simp: np_isnan_def np_lt_def np_add_def split: option.splits)
  then show ?thesis
    using st el by simp
qed

theorem screen_eligible_iff_witness:
  "(1 / 4 :: real) \<noteq> 0 \<and>
   (\<exists>steps. make_st_default = Inr steps
     \<and> eligibility (steps ! 0)
          \<lparr> people = \<lparr> date_screened = [None, Some 10, Some 20, Some 30] \<rparr>, t = 40, dt = 1 / 4,
            get_intervention = (\<lambda>l. Inl EngineError) \<rparr>
        = Inr (Mask [True, True, False, False]))"
proof -
  let ?s = "\<lparr> people = \<lparr> date_screened = [None, Some 10, Some 20, Some 30] \<rparr>, t = 40, dt = 1 / 4,
            get_intervention = (\<lambda>l. Inl EngineError) \<rparr>"
  have h: "dt ?s \<noteq> 0" by simp
  from screen_eligible_iff [OF h, of "ProductName ''hpv''" "15 / 100" "7 / 10" 2020]
  obtain steps mask where st: "make_st_default = Inr steps"
    and el: "eligibility (steps ! 0) ?s = Inr (Mask mask)"
    and len: "length mask = 4"
    and iff: "\<forall>i < length mask. mask ! i \<longleftrightarrow>
                 ([None, Some 10, Some 20, Some (30::real)] ! i = None
                  \<or> (\<exists>d. [None, Some 10, Some 20, Some (30::real)] ! i = Some d
                         \<and> real_of_int 40 > d + 5 / (1 / 4)))"
    unfolding make_st_default_def by auto
  have "mask ! 0 = True" "mask ! 1 = True" "mask ! 2 = False" "mask ! 3 = False"
    using iff len by simp_all
  then have "mask = [True, True, False, False]"
    using len by (simp add: list_eq_iff_nth_eq nth_Cons' less_Suc_eq numeral_eq_Suc)
  then show ?thesis using st el by auto
qed

text \<open>
  C3. In every state where the treatment assigner has an \<^verbatim>\<open>excision\<close> bucket and the
  ablation step an \<^verbatim>\<open>unsuccessful\<close> bucket, the excision step's eligibility is a list
  without duplicates whose elements are those of the union of the two buckets.
\<close>

theorem excision_eligible_union:
  assumes "get_intervention s ''tx assigner'' = Inr a"
    and "outcomes a ''excision'' = Some xs"
    and "get_intervention s ''ablation'' = Inr b"
    and "outcomes b ''unsuccessful'' = Some ys"
  shows "\<exists>steps zs. make_st pr sc tc y = Inr steps
           \<and> label (steps ! 3) = ''excision''
           \<and> eligibility (steps ! 3) s = Inr (Inds zs)
           \<and> set zs = set xs \<union> set ys
           \<and> distinct zs"
proof -
  obtain p where "model_annual_screen_prob sc = Inr p"
    using screen_prob_total by blast
  note st = make_st_steps [OF this, of pr tc y]
  have "excision_eligible s = Inr (Inds (remdups (xs @ ys)))"
    using outcome_bucket_found [OF assms(1,2)] outcome_bucket_found [OF assms(3,4)]
    by (simp add: excision_eligible_def ebind_def py_list_of_set_def)
  then show ?thesis
    using st by simp
qed

theorem excision_eligible_union_witness:
  "\<exists>steps zs. make_st_default = Inr steps
     \<and> eligibility (steps ! 3)
          \<lparr> people = \<lparr> date_screened = [] \<rparr>, t = 0, dt = 1 / 4,
            get_intervention = (\<lambda>l.
              if l = ''tx assigner'' then Inr \<lparr> outcomes = [''excision'' \<mapsto> [1, 2, 3]] \<rparr>
              else if l = ''ablation'' then Inr \<lparr> outcomes = [''unsuccessful'' \<mapsto> [3, 4, 3]] \<rparr>
              else Inl EngineError) \<rparr> = Inr (Inds zs)
     \<and> set zs = {1, 2, 3, 4} \<and> distinct zs"
proof -
  let ?s = "\<lparr> people = \<lparr> date_screened = [] \<rparr>, t = 0, dt = 1 / 4,
            get_intervention = (\<lambda>l.
              if l = ''tx assigner'' then Inr \<lparr> outcomes = [''excision'' \<mapsto> [1, 2, 3]] \<rparr>
              else if l = ''ablation'' then Inr \<lparr> outcomes = [''unsuccessful'' \<mapsto> [3, 4, 3]] \<rparr>
              else Inl EngineError) \<rparr>"
  have h1: "get_intervention ?s ''tx assigner'' = Inr \<lparr> outcomes = [''excision'' \<mapsto> [1, 2, 3]] \<rparr>"
    by simp
  have h2: "outcomes \<lparr> outcomes = [''excision'' \<mapsto> [1, 2, 3 :: int]] \<rparr> ''excision'' = Some [1, 2, 3]"
    by simp
  have h3: "get_intervention ?s ''ablation'' = Inr \<lparr> outcomes = [''unsuccessful'' \<mapsto> [3, 4, 3]] \<rparr>"
    by simp
  have h4: "outcomes \<lparr> outcomes = [''unsuccessful'' \<mapsto> [3, 4, 3 :: int]] \<rparr> ''unsuccessful'' = Some [3, 4, 3]"
    by simp
  from excision_eligible_union [OF h1 h2 h3 h4, of "ProductName ''hpv''" "15 / 100" "7 / 10" 2020]
  show ?thesis
    unfolding make_st_default_def by auto
qed

text \<open>
  C7. In the cascade that \<^verbatim>\<open>make_st\<close> returns, the eligibility of a step is determined
  by the steps before it: the screening eligibility by the people, the time and the
  step size alone, whatever the interventions; the treatment assigner's by the
  screening step; the ablation's and the radiation's by the treatment assigner; the
  excision's by the treatment assigner and the ablation. Two states that agree on the
  named earlier steps give the same eligibility.
\<close>

theorem eligibility_reads_earlier_steps:
  "\<exists>steps. make_st pr sc tc y = Inr steps
     \<and> map label steps = [''screening'', ''tx assigner'', ''ablation'', ''excision'', ''radiation'']
     \<and> (\<forall>s s'. people s = people s' \<and> t s = t s' \<and> dt s = dt s'
           \<longrightarrow> eligibility (steps ! 0) s = eligibility (steps ! 0) s')
     \<and> (\<forall>s s'. get_intervention s (label (steps ! 0)) = get_intervention s' (label (steps ! 0))
           \<longrightarrow> eligibility (steps ! 1) s = eligibility (steps ! 1) s')
     \<and> (\<forall>s s'. get_intervention s (label (steps ! 1)) = get_intervention s' (label (steps ! 1))
           \<longrightarrow> eligibility (steps ! 2) s = eligibility (steps ! 2) s')
     \<and> (\<forall>s s'. get_intervention s (label (steps ! 1)) = get_intervention s' (label (steps ! 1))
              \<and> get_intervention s (label (steps ! 2)) = get_intervention s' (label (steps ! 2))
           \<longrightarrow> eligibility (steps ! 3) s = eligibility (steps ! 3) s')
     \<and> (\<forall>s s'. get_intervention s (label (steps ! 1)) = get_intervention s' (label (steps ! 1))
           \<longrightarrow> eligibility (steps ! 4) s = eligibility (steps ! 4) s')"
proof -
  obtain p where "model_annual_screen_prob sc = Inr p"
    using screen_prob_total by blast
  note st = make_st_steps [OF this, of pr tc y]
  have e0: "screen_eligible s = screen_eligible s'"
    if "people s = people s' \<and> t s = t s' \<and> dt s = dt s'" for s s'
    using that by (simp add: screen_eligible_def)
  have e1: "screen_positive s = screen_positive s'"
    if "get_intervention s ''screening'' = get_intervention s' ''screening''" for s s'
    using outcome_bucket_cong [OF that] by (simp add: screen_positive_def)
  have e2: "ablation_eligible s = ablation_eligible s'"
    if "get_intervention s ''tx assigner'' = get_intervention s' ''tx assigner''" for s s'
    using outcome_bucket_cong [OF that] by (simp add: ablation_eligible_def)
  have e3: "excision_eligible s = excision_eligible s'"
    if "get_intervention s ''tx assigner'' = get_intervention s' ''tx assigner''"
      and "get_intervention s ''ablation'' = get_intervention s' ''ablation''" for s s'
    using outcome_bucket_cong [OF that(1)] outcome_bucket_cong [OF that(2)]
    by (simp add: excision_eligible_def)
  have e4: "radiation_eligible s = radiation_eligible s'"
    if "get_intervention s ''tx assigner'' = get_intervention s' ''tx assigner''" for s s'
    using outcome_bucket_cong [OF that] by (simp add: radiation_eligible_def)
  show ?thesis
    unfolding st by (auto intro: e0 e1 e2 e3 e4)
qed

theorem eligibility_reads_earlier_steps_witness:
  "\<exists>steps. make_st_default = Inr steps
     \<and> eligibility (steps ! 2)
          \<lparr> people = \<lparr> date_screened = [None] \<rparr>, t = 3, dt = 1 / 4,
            get_intervention = (\<lambda>l.
              if l = ''tx assigner'' then Inr \<lparr> outcomes = [''ablation'' \<mapsto> [0, 5]] \<rparr>
              else Inl EngineError) \<rparr>
       = eligibility (steps ! 2)
          \<lparr> people = \<lparr> date_screened = [Some 1, Some 2] \<rparr>, t = 8, dt = 1,
            get_intervention = (\<lambda>l.
              if l = ''tx assigner'' then Inr \<lparr> outcomes = [''ablation'' \<mapsto> [0, 5]] \<rparr>
              else if l = ''excision'' then Inr \<lparr> outcomes = [''successful'' \<mapsto> [7]] \<rparr>
              else Inl KeyError) \<rparr>"
proof -
  let ?s = "\<lparr> people = \<lparr> date_screened = [None] \<rparr>, t = 3, dt = 1 / 4,
            get_intervention = (\<lambda>l.
              if l = ''tx assigner'' then Inr \<lparr> outcomes = [''ablation'' \<mapsto> [0, 5]] \<rparr>
              else Inl EngineError) \<rparr>"
  let ?s' = "\<lparr> people = \<lparr> date_screened = [Some 1, Some 2] \<rparr>, t = 8, dt = 1,
            get_intervention = (\<lambda>l.
              if l = ''tx assigner'' then Inr \<lparr> outcomes = [''ablation'' \<mapsto> [0, 5]] \<rparr>
              else if l = ''excision'' then Inr \<lparr> outcomes = [''successful'' \<mapsto> [7]] \<rparr>
              else Inl KeyError) \<rparr>"
  from eligibility_reads_earlier_steps [of "ProductName ''hpv''" "15 / 100" "7 / 10" 2020]
  obtain steps where st: "make_st_default = Inr steps"
    and lbl: "map label steps = [''screening'', ''tx assigner'', ''ablation'', ''excision'', ''radiation'']"
    and dep: "\<forall>s s'. get_intervention s (label (steps ! 1)) = get_intervention s' (label (steps ! 1))
           \<longrightarrow> eligibility (steps ! 2) s = eligibility (steps ! 2) s'"
    by (elim exE conjE) (rule that, unfold make_st_default_def, assumption+)
  have "length (map label steps) = 5"
    unfolding lbl by simp
  then have len: "length steps = 5"
    by simp
  have "label (steps ! 1) = map label steps ! 1"
    using len by simp
  then have l1: "label (steps ! 1) = ''tx assigner''"
    unfolding lbl by simp
  have "get_intervention ?s (label (steps ! 1)) = get_intervention ?s' (label (steps ! 1))"
    unfolding l1 by simp
  with dep have "eligibility (steps ! 2) ?s = eligibility (steps ! 2) ?s'"
    by blast
  with st show ?thesis by blast
qed

end
